theory Spec2Isabelle
  imports Complex_Main
begin

section \<open>Python strings\<close>

text \<open>
  A Python \<open>str\<close> is a sequence of Unicode code points, and \<open>len\<close> counts code points.
  The renderer writes U+200B (8203), which is no 8-bit character, so a \<open>str\<close> is a list of
  code points; \<open>lit\<close> embeds an ASCII literal.
\<close>

type_synonym pystr = "nat list"

definition lit :: "string \<Rightarrow> pystr" where
  "lit s = map of_char s"

text \<open>The code points for which \<open>str.isspace\<close> holds; \<open>str.strip()\<close> removes them at both ends.\<close>

definition isspace :: "nat \<Rightarrow> bool" where
  "isspace c \<longleftrightarrow> (9 \<le> c \<and> c \<le> 13) \<or> (28 \<le> c \<and> c \<le> 32) \<or> c = 133 \<or> c = 160
     \<or> c = 5760 \<or> (8192 \<le> c \<and> c \<le> 8202) \<or> c = 8232 \<or> c = 8233 \<or> c = 8239
     \<or> c = 8287 \<or> c = 12288"

definition strip :: "pystr \<Rightarrow> pystr" where
  "strip s = rev (dropWhile isspace (rev (dropWhile isspace s)))"

text \<open>
  \<open>s.replace(old, new)\<close>: every non-overlapping occurrence of \<open>old\<close>, leftmost first. With an
  empty \<open>old\<close> Python puts \<open>new\<close> before every code point and at the end.
\<close>

function replace :: "pystr \<Rightarrow> pystr \<Rightarrow> pystr \<Rightarrow> pystr" where
  "replace old new [] = (if old = [] then new else [])"
| "replace old new (c # cs) =
     (if old = [] then new @ c # replace old new cs
      else if take (length old) (c # cs) = old
        then new @ replace old new (drop (length old) (c # cs))
      else c # replace old new cs)"
  by pat_completeness auto
termination
  by (relation "measure (\<lambda>(old, new, s). length s)") auto

text \<open>\<open>sep.join(xs)\<close>.\<close>

fun join :: "pystr \<Rightarrow> pystr list \<Rightarrow> pystr" where
  "join sep [] = []"
| "join sep [x] = x"
| "join sep (x # y # ys) = x @ sep @ join sep (y # ys)"

text \<open>\<open>str(n)\<close> for a non-negative integer (the \<open>{index}\<close> of an f-string), and for any integer.\<close>

function str_nat :: "nat \<Rightarrow> pystr" where
  "str_nat n = (if n < 10 then [48 + n] else str_nat (n div 10) @ [48 + n mod 10])"
  by pat_completeness auto
termination
  by (relation "measure id") auto

definition str_int :: "int \<Rightarrow> pystr" where
  "str_int i = (if i < 0 then 45 # str_nat (nat (- i)) else str_nat (nat i))"

text \<open>The format spec \<open>{name:16.16}\<close>: cut to 16 code points, then pad with spaces to 16.\<close>

definition fmt16 :: "pystr \<Rightarrow> pystr" where
  "fmt16 s = take 16 s @ replicate (16 - length s) 32"

section \<open>Values, exceptions and the chat transport\<close>

record entity =
  ent_id :: nat
  mention :: pystr

datatype pyval =
    PNone
  | PStr pystr
  | PInt int
  | PMessage nat
  | PFile nat
  | PEmbed nat
  | PInterface nat
  | PEntity entity
  | PObject nat

datatype exn =
    CancelledError
  | KeyError
  | BadArgument pystr
  | Exception pystr

type_synonym bindings = "pystr \<rightharpoonup> pyval"

text \<open>
  What a command hands to the chat: \<open>ctx.send(content)\<close>, \<open>ctx.send(file=discord.File(filename,
  BytesIO(text.encode('utf-8'))))\<close>, \<open>ctx.send(file=result)\<close>, \<open>ctx.send(embed=result)\<close>,
  \<open>result.send_to(ctx)\<close>, and a \<open>WrappedPaginator(prefix, suffix, max_size)\<close> holding one
  added line, sent through a \<open>PaginatorInterface\<close> (no suffix given: the paginator's default).
\<close>

datatype action =
    Send pystr
  | SendFile pystr pystr
  | SendFileObject nat
  | SendEmbed nat
  | InterfaceSendTo nat
  | SendPaginated pystr "pystr option" nat pystr

text \<open>
  An execution request: the arguments of \<open>AsyncCodeExecutor(source, scope, arg_dict=...,
  convertables=...)\<close>; \<open>convertables\<close> is \<open>None\<close> when the call does not pass it.
\<close>

record request =
  source :: pystr
  req_scope :: nat
  arg_dict :: bindings
  convertables :: "(pystr \<rightharpoonup> pystr) option"

text \<open>
  Modelled from the spec: the Async Code Executor and the Result Sender (jishaku.repl and
  jishaku.functools are not among the sources). Section 9 of the spec describes the executor
  as a suspendable unit of work whose advance takes a value and ends in Suspended, Done or
  Failed. A coroutine here either completes, lets an exception out (\<open>CancelledError\<close> when a
  cancellation reaches one of its wait points), produces a result and waits for the
  continuation value (\<open>None\<close> when the consumer supplied nothing), or changes the bindings of
  its Scope and goes on.
\<close>

datatype coro =
    Return
  | Raise exn
  | Yield pyval "pyval \<Rightarrow> coro"
  | Exec "bindings \<Rightarrow> bindings" "bindings \<Rightarrow> coro"

datatype reactor_args = OneArg nat | TwoArgs nat

text \<open>
  What the commands use and the sources do not define, taken as parameters: the bot token,
  \<open>repr\<close>, \<open>use_file_check(ctx, size)\<close>, \<open>Message.jump_url\<close>, \<open>all_inspections\<close>,
  \<open>codeblock_converter(text).content\<close>, the executor built for a request, what an awaited
  send returns or raises given what was sent before, what \<open>ReplResponseReactor\<close> does on
  entry and with the outcome of its body on exit, \<open>Flags.NO_REPL_PREFX\<close>, and the session
  banner \<open>box(banner, "py")\<close>.
\<close>

record env =
  token :: pystr
  repr :: "pyval \<Rightarrow> pystr"
  use_file_check :: "nat \<Rightarrow> bool"
  jump_url :: "nat \<Rightarrow> pystr"
  all_inspections :: "pyval \<Rightarrow> (pystr \<times> pystr) list"
  codeblock_converter :: "pystr \<Rightarrow> pystr"
  executor :: "request \<Rightarrow> coro"
  respond :: "action list \<Rightarrow> action \<Rightarrow> exn + pyval"
  reactor_enter :: "reactor_args \<Rightarrow> exn option"
  reactor_exit :: "reactor_args \<Rightarrow> exn option \<Rightarrow> exn option"
  NO_REPL_PREFX :: bool
  boxed_banner :: pystr

record message =
  msg_id :: nat
  msg_author :: nat
  msg_channel :: nat
  content :: pystr

text \<open>
  The invocation context: \<open>var_dict\<close> is \<open>get_var_dict_from_ctx(ctx, Flags.SCOPE_PREFIX)\<close>, the
  mention lists are those of \<open>ctx.message\<close>.
\<close>

record command_context =
  ctx_message :: nat
  ctx_author :: nat
  ctx_channel :: nat
  var_dict :: bindings
  mentions :: "entity list"
  channel_mentions :: "entity list"
  role_mentions :: "entity list"
  current_task :: nat
  qualified_name :: pystr
  created_at :: pystr

record task =
  index :: int
  handle :: nat
  task_command :: pystr
  task_created_at :: pystr

section \<open>The feature's state\<close>

text \<open>
  \<open>Scope\<close> objects have identity: \<open>scopes\<close> maps the address of each one to its bindings and
  \<open>next_scope\<close> is the first address not yet given out. \<open>stored_scope\<close> is \<open>self._scope\<close>.
  \<open>outbox\<close> lists what was sent, \<open>requests\<close> the executors constructed, \<open>cancelled\<close> the task
  handles on which \<open>cancel()\<close> was called, each in order.
\<close>

record pystate =
  scopes :: "nat \<Rightarrow> bindings"
  next_scope :: nat
  stored_scope :: nat
  retain :: bool
  last_result :: pyval
  repl_sessions :: "nat set"
  tasks :: "task list"
  task_count :: nat
  outbox :: "action list"
  requests :: "request list"
  cancelled :: "nat list"

text \<open>Modelled from the spec: \<open>Scope()\<close>, a new Scope with an empty binding table.\<close>

definition Scope :: "pystate \<Rightarrow> nat \<times> pystate" where
  "Scope st =
     (next_scope st,
      st\<lparr>scopes := (scopes st)(next_scope st := Map.empty), next_scope := Suc (next_scope st)\<rparr>)"

text \<open>
  Modelled from the spec: \<open>clear_intersection(bindings)\<close> removes from the live table every
  key that is present in \<open>bindings\<close>, and does not fail when there is none.
\<close>

definition clear_intersection :: "nat \<Rightarrow> bindings \<Rightarrow> pystate \<Rightarrow> pystate" where
  "clear_intersection a bs st =
     st\<lparr>scopes := (scopes st)(a := (\<lambda>k. if bs k = None then scopes st a k else None))\<rparr>"

text \<open>\<open>PythonFeature.__init__\<close>; the argument is \<open>Flags.RETAIN\<close>.\<close>

definition init :: "bool \<Rightarrow> pystate" where
  "init flag =
     \<lparr>scopes = (\<lambda>a. Map.empty), next_scope = 1, stored_scope = 0, retain = flag,
      last_result = PNone, repl_sessions = {}, tasks = [], task_count = 0, outbox = [],
      requests = [], cancelled = []\<rparr>"

text \<open>The \<open>scope\<close> property.\<close>

definition scope :: "pystate \<Rightarrow> nat \<times> pystate" where
  "scope st = (if retain st then (stored_scope st, st) else Scope st)"

text \<open>An awaited send: the transport answers with the sent object or raises.\<close>

definition ctx_send :: "env \<Rightarrow> action \<Rightarrow> pystate \<Rightarrow> (exn + pyval) \<times> pystate" where
  "ctx_send env a st = (respond env (outbox st) a, st\<lparr>outbox := outbox st @ [a]\<rparr>)"

section \<open>The retain command\<close>

definition jsk_retain :: "env \<Rightarrow> bool option \<Rightarrow> pystate \<Rightarrow> (exn + pyval) \<times> pystate" where
  "jsk_retain env toggle st =
     (case toggle of
        None \<Rightarrow>
          if retain st then ctx_send env (Send (lit ''Variable retention is set to ON.'')) st
          else ctx_send env (Send (lit ''Variable retention is set to OFF.'')) st
      | Some True \<Rightarrow>
          if retain st
          then ctx_send env (Send (lit ''Variable retention is already set to ON.'')) st
          else
            (let (a, st1) = Scope (st\<lparr>retain := True\<rparr>)
             in ctx_send env
                  (Send (lit ''Variable retention is ON. Future REPL sessions will retain their scope.''))
                  (st1\<lparr>stored_scope := a\<rparr>))
      | Some False \<Rightarrow>
          if \<not> retain st
          then ctx_send env (Send (lit ''Variable retention is already set to OFF.'')) st
          else ctx_send env
                 (Send (lit ''Variable retention is OFF. Future REPL sessions will dispose their scope when done.''))
                 (st\<lparr>retain := False\<rparr>))"

section \<open>Rendering a result\<close>

definition jsk_python_result_handling :: "env \<Rightarrow> pyval \<Rightarrow> pystate \<Rightarrow> (exn + pyval) \<times> pystate" where
  "jsk_python_result_handling env result st =
     (case result of
        PMessage m \<Rightarrow> ctx_send env (Send (lit ''<Message <'' @ jump_url env m @ lit ''>>'')) st
      | PFile f \<Rightarrow> ctx_send env (SendFileObject f) st
      | PEmbed e \<Rightarrow> ctx_send env (SendEmbed e) st
      | PInterface p \<Rightarrow> ctx_send env (InterfaceSendTo p) st
      | _ \<Rightarrow>
          (let text = (case result of PStr s \<Rightarrow> s | _ \<Rightarrow> repr env result)
           in if length text \<le> 2000
              then ctx_send env
                     (Send (replace (token env) (lit ''[token omitted]'')
                        (if strip text = [] then [8203] else text))) st
              else if use_file_check env (length text)
              then ctx_send env (SendFile (lit ''output.py'') text) st
              else ctx_send env (SendPaginated (lit ''```py'') (Some (lit ''```'')) 1985 text) st))"

section \<open>Argument bindings and convertables\<close>

text \<open>
  One \<open>for index, x in enumerate(...)\<close> loop of \<open>jsk_python_get_convertables\<close>: \<open>stem\<close> is the
  name up to the index (\<open>__user_mention_\<close>, \<open>__channel_mention_\<close>, \<open>__role_mention_\<close>).
\<close>

fun add_mentions ::
  "pystr \<Rightarrow> nat \<Rightarrow> entity list \<Rightarrow> bindings \<times> (pystr \<rightharpoonup> pystr) \<Rightarrow> bindings \<times> (pystr \<rightharpoonup> pystr)" where
  "add_mentions stem i [] acc = acc"
| "add_mentions stem i (e # es) (ad, cv) =
     add_mentions stem (Suc i) es
       (ad(stem @ str_nat i \<mapsto> PEntity e), cv(mention e \<mapsto> stem @ str_nat i))"

definition jsk_python_get_convertables ::
  "command_context \<Rightarrow> pystate \<Rightarrow> bindings \<times> (pystr \<rightharpoonup> pystr)" where
  "jsk_python_get_convertables ctx st =
     add_mentions (lit ''__role_mention_'') 0 (role_mentions ctx)
       (add_mentions (lit ''__channel_mention_'') 0 (channel_mentions ctx)
          (add_mentions (lit ''__user_mention_'') 0 (mentions ctx)
             ((var_dict ctx)(lit ''_'' \<mapsto> last_result st), Map.empty)))"

section \<open>Running an executor\<close>

text \<open>\<open>try: body finally: fin\<close>: the outcome of the body is kept, \<open>fin\<close> runs whatever it is.\<close>

definition try_finally ::
  "(pystate \<Rightarrow> exn option \<times> pystate) \<Rightarrow> (pystate \<Rightarrow> pystate) \<Rightarrow> pystate \<Rightarrow> exn option \<times> pystate" where
  "try_finally body fin st = (let (r, st') = body st in (r, fin st'))"

text \<open>\<open>async with ReplResponseReactor(...)\<close>: entering may raise; leaving sees the body's outcome.\<close>

definition ReplResponseReactor ::
  "env \<Rightarrow> reactor_args \<Rightarrow> (pystate \<Rightarrow> exn option \<times> pystate) \<Rightarrow> pystate \<Rightarrow> exn option \<times> pystate" where
  "ReplResponseReactor env args body st =
     (case reactor_enter env args of
        Some e \<Rightarrow> (Some e, st)
      | None \<Rightarrow> (let (r, st') = body st in (reactor_exit env args r, st')))"

text \<open>
  Modelled from the spec: \<open>with self.submit(ctx)\<close> (the Task Registry of jishaku.features.baseclass
  is not among the sources). The invocation gets the next index and is registered at the
  start; at the end it is removed if it is still there.
\<close>

definition submit ::
  "command_context \<Rightarrow> (pystate \<Rightarrow> exn option \<times> pystate) \<Rightarrow> pystate \<Rightarrow> exn option \<times> pystate" where
  "submit ctx body st =
     (let n = Suc (task_count st);
          t = \<lparr>index = int n, handle = current_task ctx, task_command = qualified_name ctx,
               task_created_at = created_at ctx\<rparr>;
          (r, st') = body (st\<lparr>task_count := n, tasks := tasks st @ [t]\<rparr>)
      in (r, st'\<lparr>tasks := remove1 t (tasks st')\<rparr>))"

text \<open>
  The loop \<open>async for send, result in AsyncSender(executor)\<close> of \<open>jsk_python\<close> and of
  \<open>jsk_repl\<close> (the two bodies are the same text), on the Scope at address \<open>a\<close>. The value given
  to \<open>send\<close> is what the coroutine is resumed with; after \<open>continue\<close> nothing was given.
\<close>

primrec result_loop :: "env \<Rightarrow> nat \<Rightarrow> coro \<Rightarrow> pystate \<Rightarrow> exn option \<times> pystate" where
  "result_loop env a Return = (\<lambda>st. (None, st))"
| "result_loop env a (Raise e) = (\<lambda>st. (Some e, st))"
| "result_loop env a (Exec f k) =
     (\<lambda>st. result_loop env a (k (f (scopes st a)))
              (st\<lparr>scopes := (scopes st)(a := f (scopes st a))\<rparr>))"
| "result_loop env a (Yield result k) =
     (\<lambda>st. if result = PNone then result_loop env a (k PNone) st
           else (case jsk_python_result_handling env result (st\<lparr>last_result := result\<rparr>) of
                   (Inl e, st') \<Rightarrow> (Some e, st')
                 | (Inr v, st') \<Rightarrow> result_loop env a (k v) st'))"

text \<open>The text \<open>jsk_python_inspect\<close> builds for one result.\<close>

definition inspect_text :: "env \<Rightarrow> pyval \<Rightarrow> pystr" where
  "inspect_text env result =
     (let header = replace (token env) (lit ''[token omitted]'')
                     (replace (lit ''``'') (96 # 8203 # [96]) (repr env result));
          header = (if length header > 485 then take 482 header @ lit ''...'' else header);
          lines = [lit ''=== '' @ header @ lit '' ==='', []]
                  @ map (\<lambda>(name, res). fmt16 name @ lit '' :: '' @ res) (all_inspections env result)
      in join [10] lines)"

text \<open>The loop of \<open>jsk_python_inspect\<close>.\<close>

primrec inspect_loop :: "env \<Rightarrow> nat \<Rightarrow> coro \<Rightarrow> pystate \<Rightarrow> exn option \<times> pystate" where
  "inspect_loop env a Return = (\<lambda>st. (None, st))"
| "inspect_loop env a (Raise e) = (\<lambda>st. (Some e, st))"
| "inspect_loop env a (Exec f k) =
     (\<lambda>st. inspect_loop env a (k (f (scopes st a)))
              (st\<lparr>scopes := (scopes st)(a := f (scopes st a))\<rparr>))"
| "inspect_loop env a (Yield result k) =
     (\<lambda>st. let text = inspect_text env result
           in (case ctx_send env
                      (if use_file_check env (length text)
                       then SendFile (lit ''inspection.prolog'') text
                       else SendPaginated (lit ''```prolog'') None 1985 text)
                      (st\<lparr>last_result := result\<rparr>) of
                 (Inl e, st') \<Rightarrow> (Some e, st')
               | (Inr v, st') \<Rightarrow> inspect_loop env a (k v) st'))"

text \<open>\<open>executor = AsyncCodeExecutor(...)\<close> followed by one of the two loops.\<close>

definition run_executor ::
  "(env \<Rightarrow> nat \<Rightarrow> coro \<Rightarrow> pystate \<Rightarrow> exn option \<times> pystate) \<Rightarrow> env \<Rightarrow> request \<Rightarrow> pystate
     \<Rightarrow> exn option \<times> pystate" where
  "run_executor loop env req st =
     loop env (req_scope req) (executor env req) (st\<lparr>requests := requests st @ [req]\<rparr>)"

section \<open>The py and py_inspect commands\<close>

definition jsk_python :: "env \<Rightarrow> command_context \<Rightarrow> pystr \<Rightarrow> pystate \<Rightarrow> exn option \<times> pystate" where
  "jsk_python env ctx argument st =
     (let ad = (var_dict ctx)(lit ''_'' \<mapsto> last_result st);
          (a, st1) = scope st
      in try_finally
           (ReplResponseReactor env (OneArg (ctx_message ctx))
              (submit ctx
                 (run_executor result_loop env
                    \<lparr>source = argument, req_scope = a, arg_dict = ad, convertables = None\<rparr>)))
           (clear_intersection a ad) st1)"

definition jsk_python_inspect ::
  "env \<Rightarrow> command_context \<Rightarrow> pystr \<Rightarrow> pystate \<Rightarrow> exn option \<times> pystate" where
  "jsk_python_inspect env ctx argument st =
     (let ad = (var_dict ctx)(lit ''_'' \<mapsto> last_result st);
          (a, st1) = scope st
      in try_finally
           (ReplResponseReactor env (OneArg (ctx_message ctx))
              (submit ctx
                 (run_executor inspect_loop env
                    \<lparr>source = argument, req_scope = a, arg_dict = ad, convertables = None\<rparr>)))
           (clear_intersection a ad) st1)"

section \<open>The repl session\<close>

text \<open>The predicate \<open>check\<close> given to \<open>wait_for\<close>.\<close>

definition check :: "env \<Rightarrow> command_context \<Rightarrow> message \<Rightarrow> bool" where
  "check env ctx m \<longleftrightarrow>
     msg_author m = ctx_author ctx \<and> msg_channel m = ctx_channel ctx \<and>
     (if NO_REPL_PREFX env then True else take 1 (content m) = lit ''$'')"

text \<open>\<open>self.repl_sessions.remove(ctx.channel.id)\<close>: \<open>set.remove\<close> raises \<open>KeyError\<close> on a missing element.\<close>

definition remove_session :: "command_context \<Rightarrow> pystate \<Rightarrow> exn option \<times> pystate" where
  "remove_session ctx st =
     (if ctx_channel ctx \<in> repl_sessions st
      then (None, st\<lparr>repl_sessions := repl_sessions st - {ctx_channel ctx}\<rparr>)
      else (Some KeyError, st))"

text \<open>The handler of \<open>asyncio.TimeoutError\<close>: announce, release the marker, leave the loop.\<close>

definition on_timeout :: "env \<Rightarrow> command_context \<Rightarrow> pystate \<Rightarrow> exn option \<times> pystate" where
  "on_timeout env ctx st =
     (case ctx_send env (Send (lit ''Exiting...'')) st of
        (Inl e, st1) \<Rightarrow> (Some e, st1)
      | (Inr v, st1) \<Rightarrow> remove_session ctx st1)"

datatype control = Continue | Exited | Raised exn

text \<open>
  One pass through the loop body once \<open>wait_for\<close> has returned \<open>response\<close>; \<open>ad\<close> is the session's
  \<open>arg_dict\<close>, which the body updates in place, \<open>cv\<close> its convertables, \<open>a\<close> its Scope.
\<close>

definition repl_body ::
  "env \<Rightarrow> command_context \<Rightarrow> nat \<Rightarrow> (pystr \<rightharpoonup> pystr) \<Rightarrow> bindings \<Rightarrow> message \<Rightarrow> pystate
     \<Rightarrow> control \<times> bindings \<times> pystate" where
  "repl_body env ctx a cv ad response st =
     (let argument = codeblock_converter env (content response)
      in if argument = lit ''ext()'' \<or> argument = lit ''quit()''
         then (case ctx_send env (Send (lit ''Exiting...'')) st of
                 (Inl e, st1) \<Rightarrow> (Raised e, ad, st1)
               | (Inr v, st1) \<Rightarrow>
                   (case remove_session ctx st1 of
                      (None, st2) \<Rightarrow> (Exited, ad, st2)
                    | (Some e, st2) \<Rightarrow> (Raised e, ad, st2)))
         else if argument = lit ''exit'' \<or> argument = lit ''quit''
         then (case ctx_send env (Send (lit ''Use `'' @ argument @ lit ''()` to exit.'')) st of
                 (Inl e, st1) \<Rightarrow> (Raised e, ad, st1)
               | (Inr v, st1) \<Rightarrow> (Continue, ad, st1))
         else
           (let ad' = ad(lit ''message'' \<mapsto> PMessage (msg_id response),
                         lit ''msg'' \<mapsto> PMessage (msg_id response));
                (r, st1) =
                   try_finally
                     (ReplResponseReactor env (TwoArgs (msg_id response))
                        (submit ctx
                           (run_executor result_loop env
                              \<lparr>source = argument, req_scope = a, arg_dict = ad',
                               convertables = Some cv\<rparr>)))
                     (clear_intersection a ad') st
            in (case r of None \<Rightarrow> (Continue, ad', st1) | Some e \<Rightarrow> (Raised e, ad', st1))))"

text \<open>
  The \<open>while True\<close> loop. The messages dispatched while the session waits come with the
  seconds since the previous one (since the wait began, for the first); \<open>waited\<close> is the time
  the pending \<open>wait_for\<close> has been waiting, and its timeout is \<open>10.0 * 60.0\<close> seconds. A
  message that fails \<open>check\<close> is not returned and does not restart the wait. When no further
  message comes, the wait times out.
\<close>

fun repl_loop ::
  "env \<Rightarrow> command_context \<Rightarrow> nat \<Rightarrow> (pystr \<rightharpoonup> pystr) \<Rightarrow> bindings \<Rightarrow> real \<Rightarrow> (real \<times> message) list
     \<Rightarrow> pystate \<Rightarrow> exn option \<times> pystate" where
  "repl_loop env ctx a cv ad waited [] st = on_timeout env ctx st"
| "repl_loop env ctx a cv ad waited ((dt, m) # es) st =
     (if waited + dt > 10 * 60 then on_timeout env ctx st
      else if \<not> check env ctx m then repl_loop env ctx a cv ad (waited + dt) es st
      else (case repl_body env ctx a cv ad m st of
              (Continue, ad', st') \<Rightarrow> repl_loop env ctx a cv ad' 0 es st'
            | (Exited, ad', st') \<Rightarrow> (None, st')
            | (Raised e, ad', st') \<Rightarrow> (Some e, st')))"

definition jsk_repl ::
  "env \<Rightarrow> command_context \<Rightarrow> (real \<times> message) list \<Rightarrow> pystate \<Rightarrow> exn option \<times> pystate" where
  "jsk_repl env ctx incoming st =
     (let (ad, cv) = jsk_python_get_convertables ctx st;
          (a, st1) = scope st
      in if ctx_channel ctx \<in> repl_sessions st1
         then (case ctx_send env
                      (Send (lit ''Already running an interactive shell in this channel. Use `exit()` or `quit()` or exit.''))
                      st1 of
                 (Inl e, st2) \<Rightarrow> (Some e, st2)
               | (Inr v, st2) \<Rightarrow> (None, st2))
         else (case ctx_send env (Send (boxed_banner env))
                      (st1\<lparr>repl_sessions := insert (ctx_channel ctx) (repl_sessions st1)\<rparr>) of
                 (Inl e, st2) \<Rightarrow> (Some e, st2)
               | (Inr v, st2) \<Rightarrow> repl_loop env ctx a cv ad 0 incoming st2))"

section \<open>The cancel command\<close>

text \<open>The argument \<open>index: typing.Union[int, str]\<close>.\<close>

datatype cancel_index = IntIndex int | StrIndex pystr

text \<open>\<open>task.task.cancel()\<close> and the report that ends the command.\<close>

definition cancel_and_report :: "env \<Rightarrow> task \<Rightarrow> pystate \<Rightarrow> (exn + pyval) \<times> pystate" where
  "cancel_and_report env t st =
     ctx_send env
       (Send (lit ''Cancelled task '' @ str_int (index t) @ lit '': `'' @ task_command t
              @ lit ''`, invoked at '' @ task_created_at t @ lit '' UTC''))
       (st\<lparr>cancelled := cancelled st @ [handle t]\<rparr>)"

definition jsk_cancel :: "env \<Rightarrow> cancel_index \<Rightarrow> pystate \<Rightarrow> (exn + pyval) \<times> pystate" where
  "jsk_cancel env idx st =
     (if tasks st = [] then ctx_send env (Send (lit ''No tasks to cancel.'')) st
      else if idx = StrIndex (lit ''~'')
      then ctx_send env
             (Send (lit ''Cancelled '' @ str_nat (length (tasks st)) @ lit '' tasks.''))
             (st\<lparr>cancelled := cancelled st @ map handle (tasks st), tasks := []\<rparr>)
      else (case idx of
              StrIndex s \<Rightarrow>
                (Inl (BadArgument (lit ''Literal for '' @ [34] @ lit ''index'' @ [34]
                                   @ lit '' not recognized.'')), st)
            | IntIndex i \<Rightarrow>
                if i = - 1
                then cancel_and_report env (last (tasks st)) (st\<lparr>tasks := butlast (tasks st)\<rparr>)
                else (case find (\<lambda>t. index t = i) (tasks st) of
                        Some t \<Rightarrow> cancel_and_report env t (st\<lparr>tasks := remove1 t (tasks st)\<rparr>)
                      | None \<Rightarrow> ctx_send env (Send (lit ''Unknown task.'')) st)))"

section \<open>Auxiliary notions for the properties\<close>

text \<open>What sending and the two result loops leave alone.\<close>

definition frame :: "pystate \<Rightarrow> pystate \<Rightarrow> bool" where
  "frame st st' \<longleftrightarrow>
     next_scope st' = next_scope st \<and> stored_scope st' = stored_scope st \<and>
     retain st' = retain st \<and> repl_sessions st' = repl_sessions st \<and>
     requests st' = requests st \<and> cancelled st' = cancelled st \<and>
     tasks st' = tasks st \<and> task_count st' = task_count st"

text \<open>What the block \<open>try: async with ...: with ...: executor ... finally: ...\<close> leaves alone.\<close>

definition block_frame :: "pystate \<Rightarrow> pystate \<Rightarrow> bool" where
  "block_frame st st' \<longleftrightarrow>
     next_scope st' = next_scope st \<and> stored_scope st' = stored_scope st \<and>
     retain st' = retain st \<and> repl_sessions st' = repl_sessions st \<and>
     cancelled st' = cancelled st"

text \<open>
  The pending wait of a session ends in a timeout: no message that passes \<open>check\<close> comes
  within 600 seconds (10 minutes) of the start of the wait.
\<close>

fun times_out :: "env \<Rightarrow> command_context \<Rightarrow> real \<Rightarrow> (real \<times> message) list \<Rightarrow> bool" where
  "times_out env ctx waited [] = True"
| "times_out env ctx waited ((dt, m) # es) =
     (waited + dt > 600 \<or> (\<not> check env ctx m \<and> times_out env ctx (waited + dt) es))"



text \<open>A run of retain commands, one after the other.\<close>

fun retain_commands :: "env \<Rightarrow> bool option list \<Rightarrow> pystate \<Rightarrow> pystate" where
  "retain_commands env [] st = st"
| "retain_commands env (t # ts) st = retain_commands env ts (snd (jsk_retain env t st))"

text \<open>
  The Scope at address \<open>old\<close> is out of use: it has been constructed, and it is not the
  stored Scope of a state with retention on.
\<close>

definition abandoned :: "nat \<Rightarrow> pystate \<Rightarrow> bool" where
  "abandoned old st \<longleftrightarrow> old < next_scope st \<and> (retain st \<longrightarrow> stored_scope st \<noteq> old)"

text \<open>An executor's coroutine that produces the given results and ignores what it is resumed with.\<close>

fun produce :: "pyval list \<Rightarrow> coro" where
  "produce [] = Return"
| "produce (v # vs) = Yield v (\<lambda>x. produce vs)"

text \<open>The contents on which a session ends, and those on which it only prompts.\<close>

definition exit_word :: "pystr \<Rightarrow> bool" where
  "exit_word s \<longleftrightarrow> s = lit ''ext()'' \<or> s = lit ''quit()''"

definition prompt_word :: "pystr \<Rightarrow> bool" where
  "prompt_word s \<longleftrightarrow> s = lit ''exit'' \<or> s = lit ''quit''"

section \<open>Concrete collaborators for the examples\<close>

text \<open>A transport that always answers with the sent message, identified by its position.\<close>

definition delivered :: "action list \<Rightarrow> action \<Rightarrow> exn + pyval" where
  "delivered tr a = Inr (PMessage (length tr))"

text \<open>
  An environment with the executor and the transport left open: the token is \<open>s3cr3t\<close>, the
  reactor lets every outcome through, code blocks are taken as they are.
\<close>

definition example_env :: "(request \<Rightarrow> coro) \<Rightarrow> (action list \<Rightarrow> action \<Rightarrow> exn + pyval) \<Rightarrow> env" where
  "example_env exe resp =
     \<lparr>token = lit ''s3cr3t'',
      repr = (\<lambda>v. case v of PNone \<Rightarrow> lit ''None'' | PInt i \<Rightarrow> str_int i | _ \<Rightarrow> lit ''<object>''),
      use_file_check = (\<lambda>n. n < 50000),
      jump_url = (\<lambda>m. lit ''https://discord.com/channels/'' @ str_nat m),
      all_inspections = (\<lambda>v. []),
      codeblock_converter = (\<lambda>s. s),
      executor = exe,
      respond = resp,
      reactor_enter = (\<lambda>args. None),
      reactor_exit = (\<lambda>args r. r),
      NO_REPL_PREFX = True,
      boxed_banner = lit ''Python''\<rparr>"

text \<open>An invocation by author 10 in channel 20 whose message mentions one user.\<close>

definition example_ctx :: command_context where
  "example_ctx =
     \<lparr>ctx_message = 1, ctx_author = 10, ctx_channel = 20,
      var_dict = [lit ''_ctx'' \<mapsto> PObject 0],
      mentions = [\<lparr>ent_id = 5, mention = lit ''<@5>''\<rparr>],
      channel_mentions = [], role_mentions = [],
      current_task = 100, qualified_name = lit ''jsk py'',
      created_at = lit ''2021-01-01 00:00:00''\<rparr>"

text \<open>An executor that puts the argument bindings into its Scope and then behaves as \<open>c\<close>.\<close>

definition inject_then :: "coro \<Rightarrow> request \<Rightarrow> coro" where
  "inject_then c req = Exec (\<lambda>b. b ++ arg_dict req) (\<lambda>b. c)"

text \<open>A message of author 10 in channel 20.\<close>

definition example_msg :: "nat \<Rightarrow> pystr \<Rightarrow> message" where
  "example_msg i s = \<lparr>msg_id = i, msg_author = 10, msg_channel = 20, content = s\<rparr>"

definition example_task :: "int \<Rightarrow> nat \<Rightarrow> task" where
  "example_task i h =
     \<lparr>index = i, handle = h, task_command = lit ''jsk py'',
      task_created_at = lit ''2021-01-01 00:00:00''\<rparr>"

text \<open>A registry of three running tasks with the indices 1, 2 and 4.\<close>

definition example_registry :: pystate where
  "example_registry =
     (init True)\<lparr>tasks := [example_task 1 101, example_task 2 102, example_task 4 104]\<rparr>"

text \<open>
  An executor that puts the argument bindings into its Scope, binds \<open>x\<close> to 5 as the executed
  code would, and then behaves as \<open>c\<close>.
\<close>

definition assign_then :: "coro \<Rightarrow> request \<Rightarrow> coro" where
  "assign_then c req =
     Exec (\<lambda>b. b ++ arg_dict req) (\<lambda>b. Exec (\<lambda>b. b(lit ''x'' \<mapsto> PInt 5)) (\<lambda>b. c))"


text \<open>An executor whose only produced result is \<open>None\<close>.\<close>

definition yield_none :: "request \<Rightarrow> coro" where
  "yield_none req = Yield PNone (\<lambda>v. Return)"



text \<open>A state whose last result is 1, and \<open>jsk py_inspect\<close> run from it on a \<open>None\<close> result.\<close>

definition example_last_one :: pystate where
  "example_last_one = (init True)\<lparr>last_result := PInt 1\<rparr>"

definition example_inspected :: "exn option \<times> pystate" where
  "example_inspected =
     jsk_python_inspect (example_env yield_none delivered) example_ctx (lit ''None'')
       example_last_one"

text \<open>What \<open>jsk_python_inspect\<close> sends for one result: a file, or the text through a paginator.\<close>

definition inspect_action :: "env \<Rightarrow> pyval \<Rightarrow> action" where
  "inspect_action env result =
     (if use_file_check env (length (inspect_text env result))
      then SendFile (lit ''inspection.prolog'') (inspect_text env result)
      else SendPaginated (lit ''```prolog'') None 1985 (inspect_text env result))"

text \<open>
  What a session in channel 20 gets to see: after 30 seconds a message of another author,
  601 seconds later a message of the session's author.
\<close>

definition example_idle :: "(real \<times> message) list" where
  "example_idle =
     [(30, \<lparr>msg_id = 2, msg_author = 11, msg_channel = 20, content = lit ''quit()''\<rparr>),
      (601, example_msg 3 (lit ''1 + 1''))]"


section \<open>Framing lemmas\<close>

lemma frame_refl: "frame st st"
  by (simp add: frame_def)

lemma frame_trans: "frame st st1 \<Longrightarrow> frame st1 st2 \<Longrightarrow> frame st st2"
  by (simp add: frame_def)

lemma ctx_send_frame: "ctx_send env a st = (x, st') \<Longrightarrow> frame st st'"
  by (auto simp: ctx_send_def frame_def)


lemma handling_is_send:
  "\<exists>act. jsk_python_result_handling env r st = ctx_send env act st"
  by (cases r) (auto simp: jsk_python_result_handling_def Let_def)

lemma handling_frame:
  "jsk_python_result_handling env r st = (x, st') \<Longrightarrow> frame st st'"
proof -
  assume h: "jsk_python_result_handling env r st = (x, st')"
  obtain act where "jsk_python_result_handling env r st = ctx_send env act st"
    using handling_is_send by blast
  with h have "ctx_send env act st = (x, st')" by simp
  then show ?thesis by (rule ctx_send_frame)
qed


lemma result_loop_frame:
  "result_loop env a c st = (r, st') \<Longrightarrow> frame st st'"
proof (induction c arbitrary: st)
  case Return
  then show ?case by (simp add: frame_refl)
next
  case (Raise e)
  then show ?case by (simp add: frame_refl)
next
  case (Yield v k)
  show ?case
  proof (cases "v = PNone")
    case True
    with Yield.prems have "result_loop env a (k PNone) st = (r, st')" by simp
    then show ?thesis by (rule Yield.IH [OF rangeI])
  next
    case False
    obtain x s1 where h: "jsk_python_result_handling env v (st\<lparr>last_result := v\<rparr>) = (x, s1)"
      by (cases "jsk_python_result_handling env v (st\<lparr>last_result := v\<rparr>)")
    from handling_frame [OF h] have f1: "frame st s1" by (simp add: frame_def)
    show ?thesis
    proof (cases x)
      case (Inl e)
      with Yield.prems False h have "st' = s1" by simp
      with f1 show ?thesis by simp
    next
      case (Inr w)
      with Yield.prems False h have "result_loop env a (k w) s1 = (r, st')" by simp
      from Yield.IH [OF rangeI this] f1 show ?thesis by (rule frame_trans [rotated])
    qed
  qed
next
  case (Exec f k)
  from Exec.prems
  have "result_loop env a (k (f (scopes st a))) (st\<lparr>scopes := (scopes st)(a := f (scopes st a))\<rparr>) = (r, st')"
    by simp
  from Exec.IH [OF rangeI this] show ?case by (simp add: frame_def)
qed



lemma exec_block:
  assumes loop: "\<And>c s r s'. loop env a c s = (r, s') \<Longrightarrow> frame s s'"
      and run: "try_finally
                  (ReplResponseReactor env args
                     (submit ctx (run_executor loop env req)))
                  (clear_intersection a ad) st = (r, st')"
      and a: "req_scope req = a"
  shows "block_frame st st' \<and>
         requests st' = (if reactor_enter env args = None then requests st @ [req] else requests st) \<and>
         (\<forall>k. ad k \<noteq> None \<longrightarrow> scopes st' a k = None) \<and>
         (\<exists>mid. st' = clear_intersection a ad mid)"
proof (cases "reactor_enter env args")
  case (Some e)
  with run have e: "st' = clear_intersection a ad st"
    by (simp add: try_finally_def ReplResponseReactor_def)
  then have "\<exists>mid. st' = clear_intersection a ad mid" by blast
  moreover from e Some
  have "block_frame st st' \<and>
         requests st' = (if reactor_enter env args = None then requests st @ [req] else requests st) \<and>
         (\<forall>k. ad k \<noteq> None \<longrightarrow> scopes st' a k = None)"
    by (auto simp: block_frame_def clear_intersection_def)
  ultimately show ?thesis by simp
next
  case None
  define n where "n = Suc (task_count st)"
  define t where "t = \<lparr>index = int n, handle = current_task ctx, task_command = qualified_name ctx,
               task_created_at = created_at ctx\<rparr>"
  define s0 where "s0 = st\<lparr>task_count := n, tasks := tasks st @ [t], requests := requests st @ [req]\<rparr>"
  obtain r1 s1 where l: "loop env a (executor env req) s0 = (r1, s1)"
    by (cases "loop env a (executor env req) s0")
  from loop [OF l] have f: "frame s0 s1" .
  from run None l a have e: "st' = clear_intersection a ad (s1\<lparr>tasks := remove1 t (tasks s1)\<rparr>)"
    by (simp add: try_finally_def ReplResponseReactor_def submit_def run_executor_def Let_def
        n_def [symmetric] t_def [symmetric] s0_def [symmetric])
  then have "\<exists>mid. st' = clear_intersection a ad mid" by blast
  moreover from e f None
  have "block_frame st st' \<and>
         requests st' = (if reactor_enter env args = None then requests st @ [req] else requests st) \<and>
         (\<forall>k. ad k \<noteq> None \<longrightarrow> scopes st' a k = None)"
    by (auto simp: block_frame_def frame_def clear_intersection_def s0_def)
  ultimately show ?thesis by simp
qed

section \<open>Token redaction in the renderer\<close>








section \<open>The cancel command and the task registry\<close>

lemma find_index_none: "i \<notin> index ` set ts \<Longrightarrow> find (\<lambda>t. index t = i) ts = None"
  by (induction ts) auto

lemma find_index_some:
  "find (\<lambda>t. index t = i) ts = Some t \<Longrightarrow> index t = i \<and> t \<in> set ts"
  by (induction ts) (auto split: if_splits)

lemma remove1_distinct_index:
  "distinct (map index ts) \<Longrightarrow> t \<in> set ts \<Longrightarrow> index t \<notin> index ` set (remove1 t ts)"
proof (induction ts)
  case Nil
  then show ?case by simp
next
  case (Cons a ts)
  show ?case
  proof (cases "t = a")
    case True
    with Cons.prems show ?thesis by auto
  next
    case False
    with Cons.prems have m: "t \<in> set ts" and d: "distinct (map index ts)"
      and na: "index a \<notin> index ` set ts" by auto
    from m na have "index t \<noteq> index a" by (metis imageI)
    with Cons.IH [OF d m] False show ?thesis by auto
  qed
qed

text \<open>
  Claim C8. \<open>jsk_cancel\<close> with an integer index other than -1 that no registered task has
  only sends a message (\<open>No tasks to cancel.\<close> or \<open>Unknown task.\<close>): the registry and the
  cancellation requests stay as they are, and the command raises nothing of its own. With an
  index that a task has, that task is removed and \<open>cancel()\<close> is called on its handle; when
  the indices are distinct the index is then absent, so a second cancel is the first case.
  With -1 the last task is removed and cancelled, with \<open>~\<close> all of them, in order.
\<close>

theorem cancel_removes_present_ignores_absent:
  "(i \<noteq> - 1 \<and> i \<notin> index ` set (tasks st) \<longrightarrow>
      jsk_cancel env (IntIndex i) st =
        ctx_send env (Send (if tasks st = [] then lit ''No tasks to cancel.''
                            else lit ''Unknown task.'')) st) \<and>
   (i \<noteq> - 1 \<and> find (\<lambda>t. index t = i) (tasks st) = Some t \<longrightarrow>
      index t = i \<and> t \<in> set (tasks st) \<and>
      tasks (snd (jsk_cancel env (IntIndex i) st)) = remove1 t (tasks st) \<and>
      cancelled (snd (jsk_cancel env (IntIndex i) st)) = cancelled st @ [handle t] \<and>
      (distinct (map index (tasks st)) \<longrightarrow>
         i \<notin> index ` set (tasks (snd (jsk_cancel env (IntIndex i) st))))) \<and>
   (tasks st \<noteq> [] \<longrightarrow>
      tasks (snd (jsk_cancel env (IntIndex (- 1)) st)) = butlast (tasks st) \<and>
      cancelled (snd (jsk_cancel env (IntIndex (- 1)) st))
        = cancelled st @ [handle (last (tasks st))]) \<and>
   tasks (snd (jsk_cancel env (StrIndex (lit ''~'')) st)) = [] \<and>
   cancelled (snd (jsk_cancel env (StrIndex (lit ''~'')) st))
     = cancelled st @ map handle (tasks st)"
proof (intro conjI impI)
  assume h: "i \<noteq> - 1 \<and> i \<notin> index ` set (tasks st)"
  then have "find (\<lambda>t. index t = i) (tasks st) = None" by (simp add: find_index_none)
  with h show "jsk_cancel env (IntIndex i) st =
        ctx_send env (Send (if tasks st = [] then lit ''No tasks to cancel.''
                            else lit ''Unknown task.'')) st"
    by (simp add: jsk_cancel_def)
next
  assume h: "i \<noteq> - 1 \<and> find (\<lambda>t. index t = i) (tasks st) = Some t"
  then have ne: "tasks st \<noteq> []" by auto
  from h find_index_some show "index t = i" by blast
  from h find_index_some show mem: "t \<in> set (tasks st)" by blast
  from h ne show rm: "tasks (snd (jsk_cancel env (IntIndex i) st)) = remove1 t (tasks st)"
    by (simp add: jsk_cancel_def cancel_and_report_def ctx_send_def)
  from h ne show "cancelled (snd (jsk_cancel env (IntIndex i) st)) = cancelled st @ [handle t]"
    by (simp add: jsk_cancel_def cancel_and_report_def ctx_send_def)
  assume d: "distinct (map index (tasks st))"
  from h find_index_some have "index t = i" by blast
  with remove1_distinct_index [OF d mem] rm
  show "i \<notin> index ` set (tasks (snd (jsk_cancel env (IntIndex i) st)))" by simp
next
  assume ne: "tasks st \<noteq> []"
  then show "tasks (snd (jsk_cancel env (IntIndex (- 1)) st)) = butlast (tasks st)"
    by (simp add: jsk_cancel_def cancel_and_report_def ctx_send_def)
  from ne show "cancelled (snd (jsk_cancel env (IntIndex (- 1)) st))
        = cancelled st @ [handle (last (tasks st))]"
    by (simp add: jsk_cancel_def cancel_and_report_def ctx_send_def)
next
  show "tasks (snd (jsk_cancel env (StrIndex (lit ''~'')) st)) = []"
    by (simp add: jsk_cancel_def ctx_send_def)
  show "cancelled (snd (jsk_cancel env (StrIndex (lit ''~'')) st))
     = cancelled st @ map handle (tasks st)"
    by (simp add: jsk_cancel_def ctx_send_def)
qed

text \<open>
  On the registry with the indices 1, 2 and 4: cancelling 3 changes nothing and answers with
  the sent message; cancelling 2 removes that task and cancels its handle, and cancelling 2
  again changes nothing; -1 takes the last task; \<open>~\<close> takes all.
\<close>

theorem cancel_removes_present_ignores_absent_witness:
  "(let env = example_env (inject_then Return) delivered;
        st = example_registry;
        st3 = snd (jsk_cancel env (IntIndex 3) st);
        st2 = snd (jsk_cancel env (IntIndex 2) st);
        st22 = snd (jsk_cancel env (IntIndex 2) st2)
    in fst (jsk_cancel env (IntIndex 3) st) = Inr (PMessage 0) \<and>
       tasks st3 = tasks st \<and> cancelled st3 = [] \<and>
       tasks st2 = [example_task 1 101, example_task 4 104] \<and> cancelled st2 = [102] \<and>
       tasks st22 = tasks st2 \<and> cancelled st22 = [102] \<and>
       tasks (snd (jsk_cancel env (IntIndex (- 1)) st)) = [example_task 1 101, example_task 2 102] \<and>
       cancelled (snd (jsk_cancel env (IntIndex (- 1)) st)) = [104] \<and>
       tasks (snd (jsk_cancel env (StrIndex (lit ''~'')) st)) = [] \<and>
       cancelled (snd (jsk_cancel env (StrIndex (lit ''~'')) st)) = [101, 102, 104])"
proof -
  let ?env = "example_env (inject_then Return) delivered"
  let ?st2 = "snd (jsk_cancel ?env (IntIndex 2) example_registry)"
  have t: "tasks example_registry = [example_task 1 101, example_task 2 102, example_task 4 104]"
    by (simp add: example_registry_def)
  have c: "cancelled example_registry = []" by (simp add: example_registry_def init_def)
  have o: "outbox example_registry = []" by (simp add: example_registry_def init_def)
  have a3: "(3::int) \<noteq> - 1 \<and> 3 \<notin> index ` set (tasks example_registry)"
    by (simp add: t example_task_def)
  have f2: "(2::int) \<noteq> - 1 \<and> find (\<lambda>t. index t = 2) (tasks example_registry) = Some (example_task 2 102)"
    by (simp add: t example_task_def)
  have d: "distinct (map index (tasks example_registry))" by (simp add: t example_task_def)
  have ne: "tasks example_registry \<noteq> []" by (simp add: t)
  have r2: "tasks ?st2 = [example_task 1 101, example_task 4 104] \<and> cancelled ?st2 = [102] \<and>
            2 \<notin> index ` set (tasks ?st2)"
    using cancel_removes_present_ignores_absent [where i = 2 and st = example_registry and t = "example_task 2 102" and env = ?env] f2 d
    by (simp add: t c example_task_def)
  then have a22: "(2::int) \<noteq> - 1 \<and> 2 \<notin> index ` set (tasks ?st2)" by (simp add: example_task_def)
  have r22: "tasks (snd (jsk_cancel ?env (IntIndex 2) ?st2)) = tasks ?st2 \<and>
             cancelled (snd (jsk_cancel ?env (IntIndex 2) ?st2)) = [102]"
    using cancel_removes_present_ignores_absent [where i = 2 and st = ?st2 and env = ?env and t = "example_task 2 102"] a22 r2
    by (simp add: ctx_send_def example_task_def)
  have r3: "fst (jsk_cancel ?env (IntIndex 3) example_registry) = Inr (PMessage 0) \<and>
            tasks (snd (jsk_cancel ?env (IntIndex 3) example_registry)) = tasks example_registry \<and>
            cancelled (snd (jsk_cancel ?env (IntIndex 3) example_registry)) = []"
    using cancel_removes_present_ignores_absent [where i = 3 and st = example_registry and env = ?env and t = "example_task 2 102"] a3
    by (simp add: ctx_send_def c o example_env_def delivered_def)
  have r1: "tasks (snd (jsk_cancel ?env (IntIndex (- 1)) example_registry)) = [example_task 1 101, example_task 2 102] \<and>
       cancelled (snd (jsk_cancel ?env (IntIndex (- 1)) example_registry)) = [104] \<and>
       tasks (snd (jsk_cancel ?env (StrIndex (lit ''~'')) example_registry)) = [] \<and>
       cancelled (snd (jsk_cancel ?env (StrIndex (lit ''~'')) example_registry)) = [101, 102, 104]"
    using cancel_removes_present_ignores_absent [where i = 3 and st = example_registry and env = ?env and t = "example_task 2 102"] ne
    by (simp add: t c example_task_def)
  from r2 r22 r3 r1 show ?thesis by (simp add: Let_def)
qed

section \<open>Cleaning the Scope after an execution\<close>

lemma scope_block_frame: "block_frame st (snd (scope st)) \<or> \<not> retain st"
  by (simp add: scope_def block_frame_def)

lemma jsk_python_block:
  assumes "jsk_python env ctx argument st = (r, st')"
  shows "\<exists>mid. st' = clear_intersection (fst (scope st))
                       ((var_dict ctx)(lit ''_'' \<mapsto> last_result st)) mid"
    and "\<forall>k. ((var_dict ctx)(lit ''_'' \<mapsto> last_result st)) k \<noteq> None \<longrightarrow>
             scopes st' (fst (scope st)) k = None"
    and "block_frame (snd (scope st)) st'"
    and "requests st' =
           (if reactor_enter env (OneArg (ctx_message ctx)) = None
            then requests st @ [\<lparr>source = argument, req_scope = fst (scope st),
                   arg_dict = (var_dict ctx)(lit ''_'' \<mapsto> last_result st),
                   convertables = None\<rparr>]
            else requests st)"
proof -
  obtain a st1 where sc: "scope st = (a, st1)" by (cases "scope st")
  let ?ad = "(var_dict ctx)(lit ''_'' \<mapsto> last_result st)"
  let ?req = "\<lparr>source = argument, req_scope = a, arg_dict = ?ad, convertables = None\<rparr>"
  have rq: "requests st1 = requests st" using sc by (auto simp: scope_def Scope_def split: if_splits)
  from assms sc
  have run: "try_finally
               (ReplResponseReactor env (OneArg (ctx_message ctx))
                  (submit ctx (run_executor result_loop env ?req)))
               (clear_intersection a ?ad) st1 = (r, st')"
    by (simp add: jsk_python_def Let_def)
  have "req_scope ?req = a" by simp
  from exec_block [where loop = result_loop, OF result_loop_frame run this] sc rq
  show "\<exists>mid. st' = clear_intersection (fst (scope st)) ?ad mid"
    and "\<forall>k. ?ad k \<noteq> None \<longrightarrow> scopes st' (fst (scope st)) k = None"
    and "block_frame (snd (scope st)) st'"
    and "requests st' =
           (if reactor_enter env (OneArg (ctx_message ctx)) = None
            then requests st @ [\<lparr>source = argument, req_scope = fst (scope st),
                   arg_dict = ?ad, convertables = None\<rparr>]
            else requests st)"
    by simp_all
qed


lemma repl_body_executes:
  assumes "repl_body env ctx a cv ad response st = (c, ad', st')"
      and "\<not> exit_word (codeblock_converter env (content response))"
      and "\<not> prompt_word (codeblock_converter env (content response))"
  shows "ad' = ad(lit ''message'' \<mapsto> PMessage (msg_id response),
                  lit ''msg'' \<mapsto> PMessage (msg_id response))"
    and "\<exists>mid. st' = clear_intersection a ad' mid"
    and "\<forall>k. ad' k \<noteq> None \<longrightarrow> scopes st' a k = None"
    and "block_frame st st'"
    and "requests st' =
           (if reactor_enter env (TwoArgs (msg_id response)) = None
            then requests st @ [\<lparr>source = codeblock_converter env (content response),
                                  req_scope = a, arg_dict = ad', convertables = Some cv\<rparr>]
            else requests st)"
    and "c \<noteq> Exited"
proof -
  let ?arg = "codeblock_converter env (content response)"
  let ?ad = "ad(lit ''message'' \<mapsto> PMessage (msg_id response),
                lit ''msg'' \<mapsto> PMessage (msg_id response))"
  let ?req = "\<lparr>source = ?arg, req_scope = a, arg_dict = ?ad, convertables = Some cv\<rparr>"
  obtain r s1 where run: "try_finally
               (ReplResponseReactor env (TwoArgs (msg_id response))
                  (submit ctx (run_executor result_loop env ?req)))
               (clear_intersection a ?ad) st = (r, s1)"
    by (cases "try_finally
               (ReplResponseReactor env (TwoArgs (msg_id response))
                  (submit ctx (run_executor result_loop env ?req)))
               (clear_intersection a ?ad) st")
  from assms run have e: "ad' = ?ad \<and> st' = s1 \<and> c = (case r of None \<Rightarrow> Continue | Some e \<Rightarrow> Raised e)"
    by (auto simp: repl_body_def Let_def exit_word_def prompt_word_def split: option.splits)
  have "req_scope ?req = a" by simp
  from exec_block [where loop = result_loop, OF result_loop_frame run this] e
  show "ad' = ?ad"
    and "\<exists>mid. st' = clear_intersection a ad' mid"
    and "\<forall>k. ad' k \<noteq> None \<longrightarrow> scopes st' a k = None"
    and "block_frame st st'"
    and "requests st' =
           (if reactor_enter env (TwoArgs (msg_id response)) = None
            then requests st @ [\<lparr>source = ?arg, req_scope = a, arg_dict = ad', convertables = Some cv\<rparr>]
            else requests st)"
    by simp_all
  from e show "c \<noteq> Exited" by (simp split: option.splits)
qed



text \<open>The definitions to unfold when a command is run on a concrete input.\<close>

lemmas run_defs = jsk_python_def jsk_python_inspect_def scope_def Scope_def try_finally_def
  ReplResponseReactor_def submit_def run_executor_def clear_intersection_def
  jsk_python_result_handling_def ctx_send_def Let_def case_prod_beta



section \<open>Results that are None\<close>

lemma none_results_as_if_absent:
  "result_loop env a (produce vs) st
     = result_loop env a (produce (filter (\<lambda>v. v \<noteq> PNone) vs)) st"
proof (induction vs arbitrary: st)
  case Nil
  show ?case by simp
next
  case (Cons v vs)
  show ?case
  proof (cases "v = PNone")
    case True
    with Cons.IH show ?thesis by simp
  next
    case False
    obtain x s1 where h: "jsk_python_result_handling env v (st\<lparr>last_result := v\<rparr>) = (x, s1)"
      by (cases "jsk_python_result_handling env v (st\<lparr>last_result := v\<rparr>)")
    show ?thesis
    proof (cases x)
      case (Inl e)
      with False h show ?thesis by simp
    next
      case (Inr w)
      with False h Cons.IH [of s1] show ?thesis by simp
    qed
  qed
qed

text \<open>
  Claim C3, as amended. In the loop of \<open>jsk_python\<close> and of \<open>jsk_repl\<close> a produced result
  that is \<open>None\<close> is skipped: nothing is sent, the state (the last result with it) stays as it
  is, the executor is resumed with no value, and nothing is raised; a run of produced
  results goes as it would with the \<open>None\<close> entries left out. The loop of
  \<open>jsk_python_inspect\<close> treats every result alike, \<open>None\<close> included: it stores it as the last
  result and sends its inspection.
\<close>

theorem none_skipped_by_py_and_repl_not_py_inspect:
  "result_loop env a (Yield PNone k) st = result_loop env a (k PNone) st \<and>
   result_loop env a (produce vs) st
     = result_loop env a (produce (filter (\<lambda>v. v \<noteq> PNone) vs)) st \<and>
   inspect_loop env a (Yield result k) st =
     (case respond env (outbox st) (inspect_action env result) of
        Inl e \<Rightarrow> (Some e, st\<lparr>last_result := result,
                                 outbox := outbox st @ [inspect_action env result]\<rparr>)
      | Inr v \<Rightarrow> inspect_loop env a (k v)
                   (st\<lparr>last_result := result,
                       outbox := outbox st @ [inspect_action env result]\<rparr>))"
proof -
  have skip: "result_loop env a (Yield PNone k) st = result_loop env a (k PNone) st"
    by simp
  have inspect: "inspect_loop env a (Yield result k) st =
     (case respond env (outbox st) (inspect_action env result) of
        Inl e \<Rightarrow> (Some e, st\<lparr>last_result := result,
                                 outbox := outbox st @ [inspect_action env result]\<rparr>)
      | Inr v \<Rightarrow> inspect_loop env a (k v)
                   (st\<lparr>last_result := result,
                       outbox := outbox st @ [inspect_action env result]\<rparr>))"
    by (auto simp: inspect_action_def ctx_send_def Let_def split: sum.splits)
  from skip none_results_as_if_absent [of env a vs st] inspect show ?thesis
    by (intro conjI)
qed

text \<open>
  \<open>jsk py\<close> on an executor that produces only \<open>None\<close>: no exception, nothing sent, the last
  result is still 1; the task counter and the request log are all that changed.
\<close>

theorem none_skipped_by_py_and_repl_not_py_inspect_witness:
  "jsk_python (example_env yield_none delivered) example_ctx (lit ''None'') example_last_one
     = (None, example_last_one\<lparr>task_count := 1,
          requests := [\<lparr>source = lit ''None'', req_scope = 0,
                        arg_dict = (var_dict example_ctx)(lit ''_'' \<mapsto> PInt 1),
                        convertables = None\<rparr>]\<rparr>)"
  using none_skipped_by_py_and_repl_not_py_inspect
    [of "example_env yield_none delivered" 0 "\<lambda>v. Return"]
  by (simp add: run_defs example_env_def yield_none_def init_def example_ctx_def lit_def
      fun_eq_iff example_last_one_def)

text \<open>
  Claim C3 as stated fails for \<open>py_inspect\<close>: on a \<open>None\<close> result it sends the inspection of
  \<open>None\<close> and replaces the last result 1 by \<open>None\<close>.
\<close>

theorem none_result_rendered_by_py_inspect:
  "fst example_inspected = None \<and>
   outbox example_last_one = [] \<and>
   outbox (snd example_inspected)
     = [SendFile (lit ''inspection.prolog'') (lit ''=== None ==='' @ [10])] \<and>
   last_result example_last_one = PInt 1 \<and>
   last_result (snd example_inspected) = PNone"
  by (simp add: example_inspected_def example_last_one_def run_defs example_env_def
      yield_none_def init_def example_ctx_def lit_def inspect_text_def delivered_def)

section \<open>The value given back to the executor\<close>





section \<open>Convertables\<close>

lemmas repl_defs = jsk_repl_def jsk_python_get_convertables_def repl_body_def check_def
  on_timeout_def remove_session_def example_msg_def

text \<open>
  Claim C2 at a message that mentions user 5. \<open>jsk_python\<close> builds its executor without
  convertables and with an argument dict that has no \<open>__user_mention_0\<close>, although
  \<open>jsk_python_get_convertables\<close> yields both for this context, and \<open>jsk_repl\<close> passes them.
\<close>

theorem py_passes_no_convertables:
  "requests (snd (jsk_python (example_env (assign_then Return) delivered) example_ctx
       (lit ''<@5>.name'') (init True)))
     = [\<lparr>source = lit ''<@5>.name'', req_scope = 0,
         arg_dict = (var_dict example_ctx)(lit ''_'' \<mapsto> PNone),
         convertables = None\<rparr>] \<and>
   ((var_dict example_ctx)(lit ''_'' \<mapsto> PNone)) (lit ''__user_mention_0'') = None \<and>
   fst (jsk_python_get_convertables example_ctx (init True)) (lit ''__user_mention_0'')
     = Some (PEntity \<lparr>ent_id = 5, mention = lit ''<@5>''\<rparr>) \<and>
   snd (jsk_python_get_convertables example_ctx (init True)) (lit ''<@5>'')
     = Some (lit ''__user_mention_0'') \<and>
   convertables (last (requests (snd (jsk_repl (example_env (assign_then Return) delivered)
       example_ctx [(1, example_msg 2 (lit ''<@5>.name''))] (init True)))))
     = Some (snd (jsk_python_get_convertables example_ctx (init True)))"
  by (simp add: run_defs repl_defs example_env_def assign_then_def init_def example_ctx_def
      lit_def delivered_def)

section \<open>The idle timeout of a session\<close>

lemma on_timeout_teardown:
  assumes "ctx_channel ctx \<in> repl_sessions st"
      and "respond env (outbox st) (Send (lit ''Exiting...'')) = Inr v"
  shows "on_timeout env ctx st =
           (None, st\<lparr>outbox := outbox st @ [Send (lit ''Exiting...'')],
                      repl_sessions := repl_sessions st - {ctx_channel ctx}\<rparr>)"
  using assms by (simp add: on_timeout_def ctx_send_def remove_session_def)

lemma repl_loop_times_out:
  assumes "times_out env ctx waited incoming"
      and "ctx_channel ctx \<in> repl_sessions st"
      and "respond env (outbox st) (Send (lit ''Exiting...'')) = Inr v"
  shows "repl_loop env ctx a cv ad waited incoming st =
           (None, st\<lparr>outbox := outbox st @ [Send (lit ''Exiting...'')],
                      repl_sessions := repl_sessions st - {ctx_channel ctx}\<rparr>)"
  using assms
proof (induction incoming arbitrary: waited)
  case Nil
  then show ?case by (simp add: on_timeout_teardown)
next
  case (Cons e es)
  obtain dt m where e: "e = (dt, m)" by (cases e)
  show ?case
  proof (cases "waited + dt > 600")
    case True
    with e Cons.prems show ?thesis by (simp add: on_timeout_teardown)
  next
    case False
    with e Cons.prems have nc: "\<not> check env ctx m" and t: "times_out env ctx (waited + dt) es"
      by simp_all
    from Cons.IH [OF t Cons.prems(2) Cons.prems(3)] e False nc show ?thesis by simp
  qed
qed

lemma repl_body_continue_keeps_sessions:
  assumes "repl_body env ctx a cv ad response st = (c, ad', st')"
      and "\<not> exit_word (codeblock_converter env (content response))"
  shows "repl_sessions st' = repl_sessions st"
proof (cases "prompt_word (codeblock_converter env (content response))")
  case True
  with assms show ?thesis
    by (auto simp: repl_body_def Let_def exit_word_def prompt_word_def ctx_send_def
        split: sum.splits)
next
  case False
  from repl_body_executes(4) [OF assms(1) assms(2) False] show ?thesis
    by (simp add: block_frame_def)
qed


lemma jsk_repl_starts:
  assumes "ctx_channel ctx \<notin> repl_sessions st"
      and "respond env (outbox (snd (scope st))) (Send (boxed_banner env)) = Inr w"
  shows "jsk_repl env ctx incoming st =
           repl_loop env ctx (fst (scope st)) (snd (jsk_python_get_convertables ctx st))
             (fst (jsk_python_get_convertables ctx st)) 0 incoming
             ((snd (scope st))\<lparr>repl_sessions := insert (ctx_channel ctx) (repl_sessions st),
                                outbox := outbox (snd (scope st)) @ [Send (boxed_banner env)]\<rparr>)"
proof -
  have rs: "repl_sessions (snd (scope st)) = repl_sessions st"
    by (simp add: scope_def Scope_def)
  from assms rs show ?thesis
    by (simp add: jsk_repl_def Let_def case_prod_beta ctx_send_def)
qed

text \<open>
  Claim C7. When no message that passes \<open>check\<close> comes within 600 seconds of the start of a
  wait, a session whose marker is in \<open>repl_sessions\<close> and whose announcement is delivered
  sends \<open>Exiting...\<close>, removes the marker of its channel and returns, whatever messages
  follow. The marker is there at every wait: \<open>jsk_repl\<close> adds it before the loop starts, and
  a pass through the loop body that continues the loop leaves \<open>repl_sessions\<close> as it is.
\<close>

theorem idle_timeout_tears_session_down:
  "(times_out env ctx waited incoming \<and> ctx_channel ctx \<in> repl_sessions st \<and>
    respond env (outbox st) (Send (lit ''Exiting...'')) = Inr v \<longrightarrow>
      repl_loop env ctx a cv ad waited incoming st =
        (None, st\<lparr>outbox := outbox st @ [Send (lit ''Exiting...'')],
                   repl_sessions := repl_sessions st - {ctx_channel ctx}\<rparr>)) \<and>
   (ctx_channel ctx \<notin> repl_sessions st \<and>
    respond env (outbox (snd (scope st))) (Send (boxed_banner env)) = Inr w \<longrightarrow>
      jsk_repl env ctx incoming st =
        repl_loop env ctx (fst (scope st)) (snd (jsk_python_get_convertables ctx st))
          (fst (jsk_python_get_convertables ctx st)) 0 incoming
          ((snd (scope st))\<lparr>repl_sessions := insert (ctx_channel ctx) (repl_sessions st),
                             outbox := outbox (snd (scope st)) @ [Send (boxed_banner env)]\<rparr>)) \<and>
   (repl_body env ctx a cv ad response st = (Continue, ad', st') \<longrightarrow>
      repl_sessions st' = repl_sessions st)"
proof -
  have p3: "repl_sessions st' = repl_sessions st"
    if h: "repl_body env ctx a cv ad response st = (Continue, ad', st')"
  proof (cases "exit_word (codeblock_converter env (content response))")
    case True
    with h show ?thesis
      by (auto simp: repl_body_def Let_def exit_word_def ctx_send_def remove_session_def
          split: sum.splits if_splits)
  next
    case False
    from repl_body_continue_keeps_sessions [OF h False] show ?thesis .
  qed
  from repl_loop_times_out jsk_repl_starts p3 show ?thesis by blast
qed

text \<open>
  A session started from the initial state: the only message within 600 seconds fails
  \<open>check\<close>, so the wait times out; the session has sent its banner and \<open>Exiting...\<close>, and the
  marker of channel 20 is gone again.
\<close>

theorem idle_timeout_tears_session_down_witness:
  "times_out (example_env (assign_then Return) delivered) example_ctx 0 example_idle \<and>
   jsk_repl (example_env (assign_then Return) delivered) example_ctx example_idle (init True)
     = (None, (init True)\<lparr>outbox := [Send (lit ''Python''), Send (lit ''Exiting...'')]\<rparr>)"
proof -
  let ?env = "example_env (assign_then Return) delivered"
  let ?st2 = "(snd (scope (init True)))\<lparr>repl_sessions := insert (ctx_channel example_ctx) (repl_sessions (init True)),
                 outbox := outbox (snd (scope (init True))) @ [Send (boxed_banner ?env)]\<rparr>"
  have t: "times_out ?env example_ctx 0 example_idle"
    by (simp add: example_idle_def check_def example_ctx_def example_msg_def)
  have n: "ctx_channel example_ctx \<notin> repl_sessions (init True)" by (simp add: init_def)
  have b: "respond ?env (outbox (snd (scope (init True)))) (Send (boxed_banner ?env)) = Inr (PMessage 0)"
    by (simp add: example_env_def delivered_def scope_def init_def)
  have m: "ctx_channel example_ctx \<in> repl_sessions ?st2" by simp
  have x: "respond ?env (outbox ?st2) (Send (lit ''Exiting...'')) = Inr (PMessage 1)"
    by (simp add: example_env_def delivered_def scope_def init_def)
  from idle_timeout_tears_session_down
    [where env = ?env and ctx = example_ctx and waited = 0 and incoming = example_idle
       and st = ?st2 and v = "PMessage 1"
       and a = "fst (scope (init True))"
       and cv = "snd (jsk_python_get_convertables example_ctx (init True))"
       and ad = "fst (jsk_python_get_convertables example_ctx (init True))"]
    t m x
  have l: "repl_loop ?env example_ctx (fst (scope (init True)))
             (snd (jsk_python_get_convertables example_ctx (init True)))
             (fst (jsk_python_get_convertables example_ctx (init True))) 0 example_idle ?st2
           = (None, ?st2\<lparr>outbox := outbox ?st2 @ [Send (lit ''Exiting...'')],
                   repl_sessions := repl_sessions ?st2 - {ctx_channel example_ctx}\<rparr>)"
    by blast
  from idle_timeout_tears_session_down
    [where env = ?env and ctx = example_ctx and st = "init True" and w = "PMessage 0"
       and incoming = example_idle]
    n b
  have s: "jsk_repl ?env example_ctx example_idle (init True) =
        repl_loop ?env example_ctx (fst (scope (init True)))
             (snd (jsk_python_get_convertables example_ctx (init True)))
             (fst (jsk_python_get_convertables example_ctx (init True))) 0 example_idle ?st2"
    by blast
  have e: "?st2\<lparr>outbox := outbox ?st2 @ [Send (lit ''Exiting...'')],
                   repl_sessions := repl_sessions ?st2 - {ctx_channel example_ctx}\<rparr>
        = (init True)\<lparr>outbox := [Send (lit ''Python''), Send (lit ''Exiting...'')]\<rparr>"
    by (simp add: scope_def init_def example_env_def)
  from t s l e show ?thesis by simp
qed

section \<open>Leaving a session\<close>




section \<open>The scope property and the retain command\<close>

lemma init_allocated: "stored_scope (init flag) < next_scope (init flag)"
  by (simp add: init_def)

lemma jsk_retain_allocated:
  "stored_scope st < next_scope st \<Longrightarrow>
     stored_scope (snd (jsk_retain env toggle st)) < next_scope (snd (jsk_retain env toggle st))"
  by (auto simp: jsk_retain_def Scope_def ctx_send_def split: option.splits bool.splits)

lemma scope_allocated:
  "stored_scope st < next_scope st \<Longrightarrow>
     stored_scope (snd (scope st)) < next_scope (snd (scope st)) \<and> fst (scope st) < next_scope (snd (scope st))"
  by (auto simp: scope_def Scope_def)

lemma abandoned_step:
  "abandoned old st \<Longrightarrow> abandoned old (snd (jsk_retain env t st))"
  by (cases t) (auto simp: abandoned_def jsk_retain_def Scope_def ctx_send_def split: bool.splits)

lemma abandoned_run:
  "abandoned old st \<Longrightarrow> abandoned old (retain_commands env ts st)"
  by (induction ts arbitrary: st) (simp_all add: abandoned_step)

lemma abandoned_read: "abandoned old st \<Longrightarrow> fst (scope st) \<noteq> old"
  by (auto simp: abandoned_def scope_def Scope_def)

lemma off_abandons:
  "retain st \<Longrightarrow> stored_scope st < next_scope st \<Longrightarrow>
     abandoned (stored_scope st) (snd (jsk_retain env (Some False) st))"
  by (simp add: abandoned_def jsk_retain_def ctx_send_def)

lemma stale_never_read:
  assumes "retain st" and "stored_scope st < next_scope st"
  shows "fst (scope (retain_commands env (Some False # ts) st)) \<noteq> stored_scope st"
  using abandoned_read [OF abandoned_run [OF off_abandons [OF assms]]] by simp

lemma next_read_after_py:
  assumes "jsk_python env ctx argument st = (r, st')"
  shows "retain st \<Longrightarrow> scope st' = (fst (scope st), st')"
    and "\<not> retain st \<Longrightarrow> fst (scope st') = Suc (fst (scope st))"
proof -
  from jsk_python_block(3) [OF assms] have b: "block_frame (snd (scope st)) st'" .
  { assume "retain st"
    with b show "scope st' = (fst (scope st), st')" by (simp add: block_frame_def scope_def) }
  { assume "\<not> retain st"
    with b show "fst (scope st') = Suc (fst (scope st))"
      by (simp add: block_frame_def scope_def Scope_def) }
qed

text \<open>
  Claim C6. With the retain flag on, reading the \<open>scope\<close> property returns the stored Scope
  and changes nothing, so every read returns the same object. With the flag off, every read
  constructs a Scope: it has an address never given out before, distinct from the stored
  one and from that of the next read, and no bindings. So the invocation after a
  \<open>jsk_python\<close> reads the same Scope again when retention is on, and the next new Scope when
  it is off.
\<close>

theorem scope_property_by_retain_flag:
  "(retain st \<longrightarrow> scope st = (stored_scope st, st)) \<and>
   (\<not> retain st \<longrightarrow>
      fst (scope st) = next_scope st \<and>
      snd (scope st) = st\<lparr>scopes := (scopes st)(next_scope st := Map.empty),
                            next_scope := Suc (next_scope st)\<rparr> \<and>
      scopes (snd (scope st)) (fst (scope st)) = Map.empty \<and>
      (stored_scope st < next_scope st \<longrightarrow> fst (scope st) \<noteq> stored_scope st) \<and>
      fst (scope (snd (scope st))) \<noteq> fst (scope st)) \<and>
   (jsk_python env ctx argument st = (r, st') \<longrightarrow>
      (retain st \<longrightarrow> scope st' = (fst (scope st), st')) \<and>
      (\<not> retain st \<longrightarrow> fst (scope st') = Suc (fst (scope st))))"
proof -
  have reads: "(retain st \<longrightarrow> scope st = (stored_scope st, st)) \<and>
   (\<not> retain st \<longrightarrow>
      fst (scope st) = next_scope st \<and>
      snd (scope st) = st\<lparr>scopes := (scopes st)(next_scope st := Map.empty),
                            next_scope := Suc (next_scope st)\<rparr> \<and>
      scopes (snd (scope st)) (fst (scope st)) = Map.empty \<and>
      (stored_scope st < next_scope st \<longrightarrow> fst (scope st) \<noteq> stored_scope st) \<and>
      fst (scope (snd (scope st))) \<noteq> fst (scope st))"
    by (simp add: scope_def Scope_def)
  have across: "(retain st \<longrightarrow> scope st' = (fst (scope st), st')) \<and>
      (\<not> retain st \<longrightarrow> fst (scope st') = Suc (fst (scope st)))"
    if h: "jsk_python env ctx argument st = (r, st')"
    using next_read_after_py [OF h] by simp
  from reads across show ?thesis by blast
qed

text \<open>
  Two reads with retention on and two with retention off, from the initial state; and the
  read after a \<open>jsk py\<close>, which is Scope 0 again with retention on and Scope 2 with it off.
\<close>

theorem scope_property_by_retain_flag_witness:
  "scope (init True) = (0, init True) \<and>
   scope (snd (scope (init True))) = (0, init True) \<and>
   fst (scope (init False)) = 1 \<and>
   scopes (snd (scope (init False))) 1 = Map.empty \<and>
   fst (scope (snd (scope (init False)))) = 2 \<and>
   fst (scope (snd (jsk_python (example_env (assign_then Return) delivered) example_ctx
      (lit ''x = 5'') (init True)))) = 0 \<and>
   fst (scope (snd (jsk_python (example_env (assign_then Return) delivered) example_ctx
      (lit ''x = 5'') (init False)))) = 2"
proof -
  let ?env = "example_env (assign_then Return) delivered"
  have reads: "scope (init True) = (0, init True) \<and>
     scope (snd (scope (init True))) = (0, init True) \<and>
     fst (scope (init False)) = 1 \<and>
     scopes (snd (scope (init False))) 1 = Map.empty \<and>
     fst (scope (snd (scope (init False)))) = 2"
    using scope_property_by_retain_flag [of "init True"]
          scope_property_by_retain_flag [of "init False"]
          scope_property_by_retain_flag [of "snd (scope (init False))"]
    by (simp add: init_def scope_def Scope_def)
  have on: "fst (scope (snd (jsk_python ?env example_ctx (lit ''x = 5'') (init True)))) = 0"
    using scope_property_by_retain_flag
      [where st = "init True" and env = ?env and ctx = example_ctx and argument = "lit ''x = 5''"
         and r = "fst (jsk_python ?env example_ctx (lit ''x = 5'') (init True))"
         and st' = "snd (jsk_python ?env example_ctx (lit ''x = 5'') (init True))"]
    by (simp add: init_def)
  have off: "fst (scope (snd (jsk_python ?env example_ctx (lit ''x = 5'') (init False)))) = 2"
    using scope_property_by_retain_flag
      [where st = "init False" and env = ?env and ctx = example_ctx and argument = "lit ''x = 5''"
         and r = "fst (jsk_python ?env example_ctx (lit ''x = 5'') (init False))"
         and st' = "snd (jsk_python ?env example_ctx (lit ''x = 5'') (init False))"]
    by (simp add: init_def)
  from reads on off show ?thesis by simp
qed

text \<open>
  Claim C4. Turning retention on from off stores a newly constructed Scope without bindings,
  and that is the Scope the property then returns. Turning it off from on changes the flag
  only (and reports): nothing is saved, a read while off constructs a Scope, and turning
  retention on again stores yet another new empty Scope, never the earlier one. Whatever
  retain commands follow the turning off, no read of the property returns the Scope that
  was stored before.
\<close>

theorem retain_toggle_starts_fresh:
  "(\<not> retain st \<longrightarrow>
      (let on = snd (jsk_retain env (Some True) st)
       in retain on \<and> stored_scope on = next_scope st \<and>
          scopes on (stored_scope on) = Map.empty \<and>
          scope on = (stored_scope on, on) \<and>
          (stored_scope st < next_scope st \<longrightarrow> stored_scope on \<noteq> stored_scope st))) \<and>
   (retain st \<longrightarrow>
      (let off = snd (jsk_retain env (Some False) st);
           on = snd (jsk_retain env (Some True) off)
       in off = st\<lparr>retain := False,
                    outbox := outbox st @ [Send (lit ''Variable retention is OFF. Future REPL sessions will dispose their scope when done.'')]\<rparr> \<and>
          scopes (snd (scope off)) (fst (scope off)) = Map.empty \<and>
          (stored_scope st < next_scope st \<longrightarrow> fst (scope off) \<noteq> stored_scope st) \<and>
          retain on \<and> scopes on (stored_scope on) = Map.empty \<and>
          scope on = (stored_scope on, on) \<and>
          (stored_scope st < next_scope st \<longrightarrow> stored_scope on \<noteq> stored_scope st))) \<and>
   (retain st \<and> stored_scope st < next_scope st \<longrightarrow>
      fst (scope (retain_commands env (Some False # ts) st)) \<noteq> stored_scope st)"
proof -
  have toggles: "(\<not> retain st \<longrightarrow>
      (let on = snd (jsk_retain env (Some True) st)
       in retain on \<and> stored_scope on = next_scope st \<and>
          scopes on (stored_scope on) = Map.empty \<and>
          scope on = (stored_scope on, on) \<and>
          (stored_scope st < next_scope st \<longrightarrow> stored_scope on \<noteq> stored_scope st))) \<and>
   (retain st \<longrightarrow>
      (let off = snd (jsk_retain env (Some False) st);
           on = snd (jsk_retain env (Some True) off)
       in off = st\<lparr>retain := False,
                    outbox := outbox st @ [Send (lit ''Variable retention is OFF. Future REPL sessions will dispose their scope when done.'')]\<rparr> \<and>
          scopes (snd (scope off)) (fst (scope off)) = Map.empty \<and>
          (stored_scope st < next_scope st \<longrightarrow> fst (scope off) \<noteq> stored_scope st) \<and>
          retain on \<and> scopes on (stored_scope on) = Map.empty \<and>
          scope on = (stored_scope on, on) \<and>
          (stored_scope st < next_scope st \<longrightarrow> stored_scope on \<noteq> stored_scope st)))"
    by (simp add: jsk_retain_def Scope_def scope_def ctx_send_def Let_def)
  have never: "fst (scope (retain_commands env (Some False # ts) st)) \<noteq> stored_scope st"
    if "retain st" "stored_scope st < next_scope st"
    using stale_never_read [OF that] .
  from toggles never show ?thesis by blast
qed

text \<open>
  A retained Scope that binds \<open>x\<close> is left behind by turning retention off and on, and a
  longer run of retain commands that starts by turning it off does not bring it back.
\<close>

theorem retain_toggle_starts_fresh_witness:
  "(let st = (init True)\<lparr>scopes := (scopes (init True))(0 := [lit ''x'' \<mapsto> PInt 5])\<rparr>;
        off = snd (jsk_retain (example_env (inject_then Return) delivered) (Some False) st);
        on = snd (jsk_retain (example_env (inject_then Return) delivered) (Some True) off)
    in scopes st (fst (scope st)) (lit ''x'') = Some (PInt 5) \<and>
       \<not> retain off \<and> retain on \<and> stored_scope on = 1 \<and>
       scopes on (fst (scope on)) (lit ''x'') = None \<and>
       fst (scope (retain_commands (example_env (inject_then Return) delivered)
              [Some False, None, Some True, Some True, Some False, Some True] st)) \<noteq> 0)"
proof -
  let ?st = "(init True)\<lparr>scopes := (scopes (init True))(0 := [lit ''x'' \<mapsto> PInt 5])\<rparr>"
  let ?env = "example_env (inject_then Return) delivered"
  have h: "retain ?st \<and> stored_scope ?st < next_scope ?st \<and> stored_scope ?st = 0"
    by (simp add: init_def)
  from retain_toggle_starts_fresh
    [where st = ?st and env = ?env and ts = "[None, Some True, Some True, Some False, Some True]"] h
  have "fst (scope (retain_commands ?env
            [Some False, None, Some True, Some True, Some False, Some True] ?st)) \<noteq> 0"
    by simp
  then show ?thesis
    using retain_toggle_starts_fresh [of ?st ?env]
    by (simp add: Let_def init_def scope_def jsk_retain_def Scope_def ctx_send_def)
qed

end
